theory Spec2Isabelle
  imports Main "HOL-Library.Word"
begin

section \<open>Common types\<close>

text \<open>
  The C++ exceptions that the modelled functions throw. The message texts of the source
  are Chinese string literals; the model keeps the exception class and an ASCII rendering
  of the text.
\<close>

datatype exn =
    out_of_range
  | invalid_argument
  | runtime_error string
  | ChannelError string
  | MediaError string
  | future_error

text \<open>
  What \<open>ClientManager::send_query\<close> gives its caller: the response object of the backend,
  a \<open>td_api::error\<close> object, or no object at all because the call threw
  \<open>runtime_error\<close> on its timeout.
\<close>

datatype 'a response = Result 'a | Error_response string | Timed_out

definition request_timeout :: exn where
  "request_timeout = runtime_error ''request timed out''"

section \<open>Channel resolver (channel\_resolver.cpp)\<close>

definition isdigit :: "char \<Rightarrow> bool" where
  "isdigit c = ((48::nat) \<le> of_char c \<and> of_char c \<le> (57::nat))"

definition isspace :: "char \<Rightarrow> bool" where
  "isspace c = (of_char c = (32::nat) \<or> ((9::nat) \<le> of_char c \<and> of_char c \<le> (13::nat)))"

definition digit_value :: "char \<Rightarrow> nat" where
  "digit_value c = of_char c - 48"

text \<open>\<open>ChannelResolver::is_valid_channel_id\<close>, check by check.\<close>

definition is_valid_channel_id :: "string \<Rightarrow> bool" where
  "is_valid_channel_id id_str =
     (if id_str = [] then False
      else if take 4 id_str \<noteq> ''-100'' then False
      else if \<not> list_all isdigit (drop 4 id_str) then False
      else 4 < length id_str)"

text \<open>
  \<open>std::stoll\<close> in base 10: leading white space is skipped, one sign is read, then the
  longest run of digits; no digit at all is \<open>invalid_argument\<close>, a value outside the
  range of a signed 64-bit integer is \<open>out_of_range\<close>.
\<close>

fun digits_val :: "nat \<Rightarrow> string \<Rightarrow> nat" where
  "digits_val acc [] = acc"
| "digits_val acc (c # cs) =
     (if isdigit c then digits_val (acc * 10 + digit_value c) cs else acc)"

definition stoll :: "string \<Rightarrow> exn + int" where
  "stoll str =
     (let s1 = dropWhile isspace str;
          neg = (s1 \<noteq> [] \<and> hd s1 = CHR ''-'');
          s2 = (if s1 \<noteq> [] \<and> (hd s1 = CHR ''-'' \<or> hd s1 = CHR ''+'') then tl s1 else s1)
      in if s2 = [] then Inl invalid_argument
         else if \<not> isdigit (hd s2) then Inl invalid_argument
         else let v = int (digits_val 0 s2);
                  r = (if neg then - v else v)
              in if r < - (2 ^ 63) then Inl out_of_range
                 else if 2 ^ 63 - 1 < r then Inl out_of_range
                 else Inr r)"

text \<open>
  \<open>extract_username_from_link\<close>: the first match of the regular expression
  \<open>t\.me/([^/\s]+)\<close>, whose group is the longest run of characters that are neither a
  slash nor white space.
\<close>

definition username_char :: "char \<Rightarrow> bool" where
  "username_char c = (c \<noteq> CHR ''/'' \<and> \<not> isspace c)"

fun regex_search_t_me :: "string \<Rightarrow> string option" where
  "regex_search_t_me [] = None"
| "regex_search_t_me (c # cs) =
     (if take 5 (c # cs) = ''t.me/'' \<and> takeWhile username_char (drop 5 (c # cs)) \<noteq> []
      then Some (takeWhile username_char (drop 5 (c # cs)))
      else regex_search_t_me cs)"

definition extract_username_from_link :: "string \<Rightarrow> exn + string" where
  "extract_username_from_link link =
     (case regex_search_t_me link of
        Some username \<Rightarrow> Inr username
      | None \<Rightarrow> Inl (ChannelError (''cannot extract a username from the link: '' @ link)))"

fun contains_t_me :: "string \<Rightarrow> bool" where
  "contains_t_me [] = False"
| "contains_t_me (c # cs) = (take 5 (c # cs) = ''t.me/'' \<or> contains_t_me cs)"

text \<open>
  The resolver's state is its cache, a \<open>std::map\<close> from the identifier to the chat id.
  The backend is a parameter: \<open>search\<close> answers the \<open>searchPublicChat\<close> query for a
  username. Every function returns, beside its result, the list of usernames it has
  queried the backend for.
\<close>

type_synonym channel_cache = "string \<rightharpoonup> int"

definition get_chat_id_by_username :: "(string \<Rightarrow> int response) \<Rightarrow> string \<Rightarrow> exn + int" where
  "get_chat_id_by_username search username =
     (case search username of
        Timed_out \<Rightarrow> Inl request_timeout
      | Error_response e \<Rightarrow> Inl (ChannelError (''cannot get the channel id: '' @ e))
      | Result chat_id \<Rightarrow> Inr chat_id)"

text \<open>
  The username that \<open>resolve_channel_sync\<close> queries for an identifier that is not a
  numeric id: the group of a \<open>t.me/\<close> link, the identifier without its leading
  \<open>@\<close>, or the identifier itself. (\<open>channel_identifier[0]\<close> of an empty string is the
  terminating null character, which is not \<open>@\<close>.)
\<close>

definition identifier_username :: "string \<Rightarrow> exn + string" where
  "identifier_username channel_identifier =
     (if contains_t_me channel_identifier then extract_username_from_link channel_identifier
      else if channel_identifier \<noteq> [] \<and> hd channel_identifier = CHR ''@''
      then Inr (tl channel_identifier)
      else Inr channel_identifier)"

definition resolve_channel_sync ::
  "(string \<Rightarrow> int response) \<Rightarrow> channel_cache \<Rightarrow> string \<Rightarrow> (exn + int) \<times> channel_cache \<times> string list" where
  "resolve_channel_sync search cache channel_identifier =
     (case cache channel_identifier of
        Some cached \<Rightarrow> (Inr cached, cache, [])
      | None \<Rightarrow>
          if is_valid_channel_id channel_identifier then
            (case stoll channel_identifier of
               Inl e \<Rightarrow> (Inl e, cache, [])
             | Inr channel_id \<Rightarrow>
                 (Inr channel_id, cache(channel_identifier \<mapsto> channel_id), []))
          else
            (case identifier_username channel_identifier of
               Inl e \<Rightarrow> (Inl e, cache, [])
             | Inr username \<Rightarrow>
                 (case get_chat_id_by_username search username of
                    Inl e \<Rightarrow> (Inl e, cache, [username])
                  | Inr channel_id \<Rightarrow>
                      (Inr channel_id, cache(channel_identifier \<mapsto> channel_id),
                       [username]))))"

definition clear_cache :: "channel_cache \<Rightarrow> channel_cache" where
  "clear_cache cache = Map.empty"

text \<open>The integer that a decimal numeral denotes, most significant digit first.\<close>

definition decimal_value :: "string \<Rightarrow> nat" where
  "decimal_value ds = foldl (\<lambda>a c. a * 10 + digit_value c) 0 ds"

text \<open>
  The cache holds, under every key that is a well-formed numeric id, the value that
  \<open>stoll\<close> reads from the key. Every cache the resolver can reach is of this kind.
\<close>

definition cache_consistent :: "channel_cache \<Rightarrow> bool" where
  "cache_consistent c =
     (\<forall>k v. c k = Some v \<and> is_valid_channel_id k \<longrightarrow> stoll k = Inr v)"

section \<open>Request gateway (client\_manager.cpp)\<close>

datatype ClientState =
  Idle | Connecting | WaitingPhoneNumber | WaitingCode | WaitingPassword | Ready | Closed | Error

datatype authorization_state =
    authorizationStateWaitTdlibParameters
  | authorizationStateWaitEncryptionKey
  | authorizationStateWaitPhoneNumber
  | authorizationStateWaitCode
  | authorizationStateWaitPassword
  | authorizationStateReady
  | authorizationStateLoggingOut
  | authorizationStateClosing
  | authorizationStateClosed
  | authorizationStateOther

text \<open>
  The objects of the inbound stream, by the classes that \<open>process_response\<close> tells apart.
  \<open>other_object\<close> stands for every other class (\<open>messages\<close>, \<open>chat\<close>, \<open>file\<close>, ...); its
  first field says whether the class id equals the constant
  \<open>MessageContentType::Proxy\<close> of line 311, which no file of the repository declares, and
  its second field is the payload.
\<close>

datatype td_object =
    updateAuthorizationState "authorization_state option"
  | updateNewMessage nat
  | ok
  | error int string
  | other_object bool nat

datatype request =
    checkDatabaseEncryptionKey
  | setAuthenticationPhoneNumber string
  | checkAuthenticationCode string
  | checkAuthenticationPassword string
  | query nat

text \<open>
  A completion handler: the lambda of \<open>send_query\<close>, which sets the promise of that call,
  or a callback of a caller of \<open>send_query_async\<close>. Calling a handler is recorded in the
  field \<open>calls\<close> of the manager, with the object it was called on.
\<close>

datatype handler = promise_setter nat | callback nat

text \<open>
  How a run can end other than by returning: a null \<open>object_ptr\<close> is dereferenced (the
  pointer was emptied by \<open>td::move_object_as\<close> or by \<open>std::move\<close> into a handler); an
  exception leaves a thread, which terminates the process; or the thread waits for ever.
\<close>

datatype fault = null_dereference | uncaught exn | never_returns

record ClientManager =
  cm_client_id :: "int option"
  cm_state :: ClientState
  cm_running :: bool
  cm_response_handlers :: "(64 word \<times> handler) list"
  cm_update_handlers :: "string \<rightharpoonup> nat"
  cm_query_id :: "64 word"
  cm_sent :: "(64 word \<times> request) list"
  cm_calls :: "(handler \<times> td_object) list"
  cm_next_promise :: nat

text \<open>
  \<open>response_handlers_\<close> is a \<open>std::map\<close>: the model keeps it as a list of pairs in
  increasing order of the key, so that \<open>begin()\<close> is the head of the list.
\<close>

fun map_assign :: "64 word \<Rightarrow> handler \<Rightarrow> (64 word \<times> handler) list \<Rightarrow> (64 word \<times> handler) list" where
  "map_assign k v [] = [(k, v)]"
| "map_assign k v ((k', v') # m) =
     (if k = k' then (k, v) # m
      else if k < k' then (k, v) # (k', v') # m
      else (k', v') # map_assign k v m)"

definition map_erase :: "64 word \<Rightarrow> (64 word \<times> handler) list \<Rightarrow> (64 word \<times> handler) list" where
  "map_erase k m = filter (\<lambda>e. fst e \<noteq> k) m"

record auth_env =
  phone_number :: string
  stdin_code :: string
  stdin_password :: string

definition set_state :: "ClientState \<Rightarrow> ClientManager \<Rightarrow> ClientManager" where
  "set_state st cm = cm\<lparr>cm_state := st\<rparr>"

definition send_query_async ::
  "ClientManager \<Rightarrow> request \<Rightarrow> handler option \<Rightarrow> exn + (64 word \<times> ClientManager)" where
  "send_query_async cm q h =
     (if cm_client_id cm = None then Inl (runtime_error ''client not initialised'')
      else let query_id = cm_query_id cm + 1
           in Inr (query_id,
                   cm\<lparr>cm_query_id := query_id,
                      cm_response_handlers :=
                        (case h of None \<Rightarrow> cm_response_handlers cm
                         | Some f \<Rightarrow> map_assign query_id f (cm_response_handlers cm)),
                      cm_sent := cm_sent cm @ [(query_id, q)]\<rparr>))"

definition send_code :: "ClientManager \<Rightarrow> string \<Rightarrow> exn + ClientManager" where
  "send_code cm code =
     (if cm_state cm \<noteq> WaitingCode then Inr cm
      else case send_query_async cm (checkAuthenticationCode code) None of
             Inl e \<Rightarrow> Inl e
           | Inr r \<Rightarrow> Inr (snd r))"

definition send_password :: "ClientManager \<Rightarrow> string \<Rightarrow> exn + ClientManager" where
  "send_password cm password =
     (if cm_state cm \<noteq> WaitingPassword then Inr cm
      else case send_query_async cm (checkAuthenticationPassword password) None of
             Inl e \<Rightarrow> Inl e
           | Inr r \<Rightarrow> Inr (snd r))"

text \<open>\<open>td::ClientManager::send(*client_id_, id, request)\<close> with a fixed request id.\<close>

definition td_send :: "ClientManager \<Rightarrow> 64 word \<Rightarrow> request \<Rightarrow> fault + ClientManager" where
  "td_send cm n q =
     (if cm_client_id cm = None then Inl null_dereference
      else Inr (cm\<lparr>cm_sent := cm_sent cm @ [(n, q)]\<rparr>))"

definition lift_exn :: "exn + ClientManager \<Rightarrow> fault + ClientManager" where
  "lift_exn r = (case r of Inl e \<Rightarrow> Inl (uncaught e) | Inr cm \<Rightarrow> Inr cm)"

fun handle_authorization_state ::
  "auth_env \<Rightarrow> ClientManager \<Rightarrow> authorization_state option \<Rightarrow> fault + ClientManager" where
  "handle_authorization_state env cm None = Inr cm"
| "handle_authorization_state env cm (Some authorizationStateWaitTdlibParameters) =
     Inr (set_state Connecting cm)"
| "handle_authorization_state env cm (Some authorizationStateWaitEncryptionKey) =
     td_send cm 3 checkDatabaseEncryptionKey"
| "handle_authorization_state env cm (Some authorizationStateWaitPhoneNumber) =
     (if phone_number env \<noteq> []
      then td_send (set_state WaitingPhoneNumber cm) 4 (setAuthenticationPhoneNumber (phone_number env))
      else Inr (set_state Error (set_state WaitingPhoneNumber cm)))"
| "handle_authorization_state env cm (Some authorizationStateWaitCode) =
     lift_exn (send_code (set_state WaitingCode cm) (stdin_code env))"
| "handle_authorization_state env cm (Some authorizationStateWaitPassword) =
     lift_exn (send_password (set_state WaitingPassword cm) (stdin_password env))"
| "handle_authorization_state env cm (Some authorizationStateReady) = Inr (set_state Ready cm)"
| "handle_authorization_state env cm (Some authorizationStateLoggingOut) = Inr (set_state Idle cm)"
| "handle_authorization_state env cm (Some authorizationStateClosing) = Inr (set_state Idle cm)"
| "handle_authorization_state env cm (Some authorizationStateClosed) = Inr (set_state Closed cm)"
| "handle_authorization_state env cm (Some authorizationStateOther) = Inr cm"

text \<open>
  The part of \<open>process_response\<close> after the authorization branch (lines 306 to 347), on
  an object that is not null and not an \<open>updateAuthorizationState\<close>. Lines 311 to 316 move an object of the \<open>Proxy\<close> class or an
  \<open>error\<close> out of \<open>object\<close>, and line 324 moves an \<open>updateNewMessage\<close> into its handler;
  the next \<open>object->get_id()\<close> then dereferences the emptied pointer. An \<open>ok\<close> goes to the
  handler at \<open>response_handlers_.begin()\<close>, which is erased. Nothing else is done with
  any object.
\<close>

definition dispatch_object :: "ClientManager \<Rightarrow> td_object \<Rightarrow> fault + ClientManager" where
  "dispatch_object cm object =
     (case object of
        other_object is_proxy payload \<Rightarrow> (if is_proxy then Inl null_dereference else Inr cm)
      | error code message \<Rightarrow> Inl null_dereference
      | updateNewMessage m \<Rightarrow>
          (case cm_update_handlers cm ''updateNewMessage'' of
             Some f \<Rightarrow> Inl null_dereference
           | None \<Rightarrow> Inr cm)
      | ok \<Rightarrow>
          (case cm_response_handlers cm of
             [] \<Rightarrow> Inr cm
           | (query_id, f) # rest \<Rightarrow>
               Inr (cm\<lparr>cm_response_handlers := rest, cm_calls := cm_calls cm @ [(f, object)]\<rparr>))
      | updateAuthorizationState a \<Rightarrow> Inr cm)"

definition process_response ::
  "auth_env \<Rightarrow> ClientManager \<Rightarrow> td_object option \<Rightarrow> fault + ClientManager" where
  "process_response env cm object =
     (case object of
        None \<Rightarrow> Inr cm
      | Some (updateAuthorizationState a) \<Rightarrow> handle_authorization_state env cm a
      | Some obj \<Rightarrow> dispatch_object cm obj)"

text \<open>
  One item that \<open>td::ClientManager::receive\<close> hands to the loop of \<open>process_updates\<close>:
  the loop skips an empty item and an item of another client, and passes the object
  alone, without the request id, to \<open>process_response\<close>.
\<close>

record inbound =
  in_client_id :: int
  in_request_id :: "64 word"
  in_object :: "td_object option"

definition process_update :: "auth_env \<Rightarrow> ClientManager \<Rightarrow> inbound \<Rightarrow> fault + ClientManager" where
  "process_update env cm response =
     (if in_object response = None then Inr cm
      else if cm_client_id cm = None then Inr cm
      else if Some (in_client_id response) \<noteq> cm_client_id cm then Inr cm
      else process_response env cm (in_object response))"

fun process_updates :: "auth_env \<Rightarrow> ClientManager \<Rightarrow> inbound list \<Rightarrow> fault + ClientManager" where
  "process_updates env cm [] = Inr cm"
| "process_updates env cm (r # rs) =
     (case process_update env cm r of
        Inl f \<Rightarrow> Inl f
      | Inr cm' \<Rightarrow> process_updates env cm' rs)"

text \<open>The value of the promise of a call of \<open>send_query\<close>: the object its lambda was called on.\<close>

definition promise_value :: "ClientManager \<Rightarrow> nat \<Rightarrow> td_object option" where
  "promise_value cm p = map_of (cm_calls cm) (promise_setter p)"

text \<open>
  \<open>send_query\<close>. The caller blocks in \<open>future.wait_for\<close> while the loop of
  \<open>process_updates\<close> handles the items \<open>arrived\<close> that come in before the timeout. If
  the promise has a value by then, the call returns it; otherwise it erases the handler
  of its query id and throws \<open>runtime_error\<close>.
\<close>

definition send_query ::
  "auth_env \<Rightarrow> ClientManager \<Rightarrow> request \<Rightarrow> inbound list \<Rightarrow> fault + ((exn + td_object) \<times> ClientManager)" where
  "send_query env cm q arrived =
     (if cm_client_id cm = None then Inr (Inl (runtime_error ''client not initialised''), cm)
      else let p = cm_next_promise cm in
        case send_query_async (cm\<lparr>cm_next_promise := Suc p\<rparr>) q (Some (promise_setter p)) of
          Inl e \<Rightarrow> Inr (Inl e, cm)
        | Inr r \<Rightarrow>
            (case process_updates env (snd r) arrived of
               Inl f \<Rightarrow> Inl f
             | Inr cm' \<Rightarrow>
                 (case promise_value cm' p of
                    None \<Rightarrow>
                      Inr (Inl request_timeout,
                           cm'\<lparr>cm_response_handlers := map_erase (fst r) (cm_response_handlers cm')\<rparr>)
                  | Some object \<Rightarrow> Inr (Inr object, cm'))))"

definition idle_client :: ClientManager where
  "idle_client =
     \<lparr>cm_client_id = Some 1, cm_state = Ready, cm_running = True, cm_response_handlers = [],
      cm_update_handlers = Map.empty, cm_query_id = 0, cm_sent = [], cm_calls = [],
      cm_next_promise = 0\<rparr>"

definition no_auth_env :: auth_env where
  "no_auth_env = \<lparr>phone_number = [], stdin_code = [], stdin_password = []\<rparr>"

section \<open>Messages (utils.cpp)\<close>

text \<open>
  The content of a message, by the classes the code tells apart. The four classes that
  can belong to an album carry their \<open>media_album_id_\<close> (empty when the message is in
  no album) and their caption; \<open>messageOther\<close> stands for every class the code has no
  case for.
\<close>

datatype message_content =
    messageText string
  | messagePhoto string string
  | messageVideo string string
  | messageDocument string string
  | messageAudio string string
  | messageAnimation string
  | messageSticker
  | messageVoiceNote string
  | messageVideoNote
  | messageOther

text \<open>
  A message: its id, its chat and its content. \<open>msg_files\<close> are the ids of the files
  that the nested objects of a media content hold, in the order in which
  \<open>get_file_ids\<close> collects them.
\<close>

record message =
  msg_id :: int
  msg_chat_id :: int
  msg_content :: message_content
  msg_files :: "int list"

fun content_album_id :: "message_content \<Rightarrow> string option" where
  "content_album_id (messagePhoto album caption) = (if album \<noteq> [] then Some album else None)"
| "content_album_id (messageVideo album caption) = (if album \<noteq> [] then Some album else None)"
| "content_album_id (messageDocument album caption) = (if album \<noteq> [] then Some album else None)"
| "content_album_id (messageAudio album caption) = (if album \<noteq> [] then Some album else None)"
| "content_album_id c = None"

definition get_media_group_id :: "message \<Rightarrow> string option" where
  "get_media_group_id m = content_album_id (msg_content m)"

fun content_has_files :: "message_content \<Rightarrow> bool" where
  "content_has_files (messageText t) = False"
| "content_has_files messageOther = False"
| "content_has_files c = True"

definition get_file_ids :: "message \<Rightarrow> int list" where
  "get_file_ids m = (if content_has_files (msg_content m) then msg_files m else [])"

fun content_caption :: "message_content \<Rightarrow> string" where
  "content_caption (messageText t) = t"
| "content_caption (messagePhoto album caption) = caption"
| "content_caption (messageVideo album caption) = caption"
| "content_caption (messageDocument album caption) = caption"
| "content_caption (messageAudio album caption) = caption"
| "content_caption (messageAnimation caption) = caption"
| "content_caption (messageVoiceNote caption) = caption"
| "content_caption c = []"

definition get_caption :: "message \<Rightarrow> string" where
  "get_caption m = content_caption (msg_content m)"

datatype MediaType =
    Media_Unknown | Media_Photo | Media_Video | Media_Document | Media_Audio
  | Media_Animation | Media_Sticker | Media_VoiceNote | Media_VideoNote

fun content_media_type :: "message_content \<Rightarrow> MediaType" where
  "content_media_type (messagePhoto album caption) = Media_Photo"
| "content_media_type (messageVideo album caption) = Media_Video"
| "content_media_type (messageDocument album caption) = Media_Document"
| "content_media_type (messageAudio album caption) = Media_Audio"
| "content_media_type (messageAnimation caption) = Media_Animation"
| "content_media_type messageSticker = Media_Sticker"
| "content_media_type (messageVoiceNote caption) = Media_VoiceNote"
| "content_media_type messageVideoNote = Media_VideoNote"
| "content_media_type c = Media_Unknown"

definition get_media_type :: "message \<Rightarrow> MediaType" where
  "get_media_type m = content_media_type (msg_content m)"

fun what :: "exn \<Rightarrow> string" where
  "what out_of_range = ''stoll''"
| "what invalid_argument = ''stoll''"
| "what (runtime_error t) = t"
| "what (ChannelError t) = t"
| "what (MediaError t) = t"
| "what future_error = ''std::future_error''"

section \<open>Media transfer engine (media\_handler.cpp)\<close>

datatype MediaTaskState = Pending | Processing | Completed | Failed | Cancelled

datatype MediaTaskType = Download | Upload

record MemoryBuffer =
  buf_data :: string
  buf_name :: string

text \<open>
  A media task. Its id is the pair that \<open>generate_message_id\<close> prints as
  \<open>chat_id + "_" + message_id\<close>. The time stamps of the source are left out: no control
  flow reads them.
\<close>

record MediaTask =
  mt_id :: "int \<times> int"
  mt_type :: MediaTaskType
  mt_state :: MediaTaskState
  mt_message :: message
  mt_buffer :: MemoryBuffer
  mt_error :: string
  mt_progress :: int

definition new_MediaTask :: "MediaTaskType \<Rightarrow> message \<Rightarrow> MediaTask" where
  "new_MediaTask ty m =
     \<lparr>mt_id = (msg_chat_id m, msg_id m), mt_type = ty, mt_state = Pending, mt_message = m,
      mt_buffer = \<lparr>buf_data = [], buf_name = []\<rparr>, mt_error = [], mt_progress = 0\<rparr>"

definition set_progress :: "int \<Rightarrow> MediaTask \<Rightarrow> MediaTask" where
  "set_progress progress t = t\<lparr>mt_progress := max 0 (min 100 progress)\<rparr>"

record MediaGroupTask =
  mg_id :: string
  mg_tasks :: "MediaTask list"

definition new_MediaGroupTask :: "string \<Rightarrow> MediaGroupTask" where
  "new_MediaGroupTask group_id = \<lparr>mg_id = group_id, mg_tasks = []\<rparr>"

definition add_task :: "MediaGroupTask \<Rightarrow> MediaTask \<Rightarrow> MediaGroupTask" where
  "add_task g t = g\<lparr>mg_tasks := mg_tasks g @ [t]\<rparr>"

definition completed_count :: "MediaGroupTask \<Rightarrow> nat" where
  "completed_count g = length (filter (\<lambda>t. mt_state t = Completed) (mg_tasks g))"

definition failed_count :: "MediaGroupTask \<Rightarrow> nat" where
  "failed_count g = length (filter (\<lambda>t. mt_state t = Failed) (mg_tasks g))"

definition is_completed :: "MediaGroupTask \<Rightarrow> bool" where
  "is_completed g = (completed_count g + failed_count g = length (mg_tasks g))"

fun first_caption :: "MediaTask list \<Rightarrow> string" where
  "first_caption [] = []"
| "first_caption (t # ts) =
     (if get_caption (mt_message t) \<noteq> [] then get_caption (mt_message t) else first_caption ts)"

definition caption :: "MediaGroupTask \<Rightarrow> string" where
  "caption g = first_caption (mg_tasks g)"

text \<open>
  The backend as the engine and the forwarder see it through \<open>send_query\<close>, a
  parameter of the model: the answers to \<open>getFile\<close> (the id of the file) and to
  \<open>downloadFile\<close> (whether the download is complete, and the local path), the content
  of a local file (\<open>None\<close> when it cannot be opened), the answers to
  \<open>sendMessageAlbum\<close> and to a \<open>sendMessage\<close> with a media content or with a text (the
  ids of the new messages), and the answers to the two \<open>getChatHistory\<close> queries of the
  forwarder on the source chat: the one of \<open>get_new_messages\<close> and the one of
  \<open>get_media_group_messages\<close>. \<open>be_file_name\<close> is the name
  \<open>"media_" + id + extension\<close> that \<open>download_file\<close> gives the buffer; no control flow
  reads it.
\<close>

record backend =
  be_get_file :: "int \<Rightarrow> int response"
  be_download_file :: "int \<Rightarrow> (bool \<times> string) response"
  be_read_file :: "string \<Rightarrow> string option"
  be_file_name :: "message \<Rightarrow> string"
  be_send_album :: "int \<Rightarrow> (MediaType \<times> MemoryBuffer \<times> string) list \<Rightarrow> int list response"
  be_send_media :: "int \<Rightarrow> MediaType \<times> MemoryBuffer \<times> string \<Rightarrow> int response"
  be_send_text :: "int \<Rightarrow> string \<Rightarrow> int response"
  be_history_new :: "message list response"
  be_history_recent :: "message list response"

text \<open>\<open>MediaHandler::download_file\<close>: the buffer it fills, or the exception it throws.\<close>

definition download_file :: "backend \<Rightarrow> MediaTask \<Rightarrow> exn + MemoryBuffer" where
  "download_file be task =
     (let m = mt_message task in
      case get_file_ids m of
        [] \<Rightarrow> Inl (MediaError ''the message holds no media file'')
      | file_id # others \<Rightarrow>
          (case be_get_file be file_id of
             Timed_out \<Rightarrow> Inl request_timeout
           | Error_response e \<Rightarrow> Inl (MediaError (''cannot get the file: '' @ e))
           | Result file \<Rightarrow>
               (case be_download_file be file of
                  Timed_out \<Rightarrow> Inl request_timeout
                | Error_response e \<Rightarrow> Inl (MediaError (''cannot download the file: '' @ e))
                | Result loc \<Rightarrow>
                    if fst loc then
                      (case be_read_file be (snd loc) of
                         None \<Rightarrow> Inl (MediaError (''cannot open the downloaded file: '' @ snd loc))
                       | Some content \<Rightarrow>
                           Inr (\<lparr>buf_data = buf_data (mt_buffer task) @ content,
                                 buf_name = be_file_name be m\<rparr>))
                    else Inl (MediaError ''the download is not complete''))))"

text \<open>
  What a download worker makes of the task it holds, which is \<open>Processing\<close> (lines
  473 to 489): the task ends \<open>Completed\<close> with its buffer, or \<open>Failed\<close> with the text of
  the exception.
\<close>

definition download_result :: "backend \<Rightarrow> MediaTask \<Rightarrow> MediaTask" where
  "download_result be task =
     (case download_file be task of
        Inr buffer \<Rightarrow> task\<lparr>mt_state := Completed, mt_buffer := buffer\<rparr>
      | Inl e \<Rightarrow> task\<lparr>mt_state := Failed, mt_error := what e\<rparr>)"

text \<open>
  The value of a \<open>std::future\<close> that is ready: a value (a task pointer, which may be
  null, or a message) or an exception.
\<close>

datatype 'a future_result = Future_value 'a | Future_exception exn

text \<open>
  \<open>send_media_by_type\<close>, which is all that \<open>upload_file\<close> does: the id of the new
  message, or the exception it throws.
\<close>

definition send_media_by_type :: "backend \<Rightarrow> int \<Rightarrow> MediaTask \<Rightarrow> exn + int" where
  "send_media_by_type be chat_id task =
     (let m = mt_message task; media_type = get_media_type m in
      if media_type = Media_Photo \<or> media_type = Media_Video \<or> media_type = Media_Document
         \<or> media_type = Media_Audio \<or> media_type = Media_Animation \<or> media_type = Media_Sticker
      then
        (case be_send_media be chat_id
                (media_type, mt_buffer task,
                 if media_type = Media_Sticker then [] else get_caption m) of
           Timed_out \<Rightarrow> Inl request_timeout
         | Error_response e \<Rightarrow> Inl (MediaError (''cannot send the media message: '' @ e))
         | Result new_id \<Rightarrow> Inr new_id)
      else Inl (MediaError ''unsupported media type''))"

text \<open>
  The handler. Every \<open>std::promise\<close> has a key. \<open>mh_retrieved\<close> lists the promises whose
  future has been taken with \<open>get_future()\<close>: a promise hands out its future once, and
  \<open>get_future()\<close> on a listed promise throws \<open>future_error\<close>. \<open>mh_promises\<close> and
  \<open>mh_upload_promises\<close> list the promises that are set, with their values; a future
  whose key is not listed is not ready.
\<close>

record MediaHandler =
  mh_running :: bool
  mh_download_queue :: "(MediaTask \<times> nat) list"
  mh_upload_queue :: "(int \<times> MediaTask \<times> nat) list"
  mh_retrieved :: "nat list"
  mh_promises :: "(nat \<times> MediaTask option future_result) list"
  mh_upload_promises :: "(nat \<times> int future_result) list"
  mh_next_promise :: nat

text \<open>
  \<open>download_media\<close> and \<open>upload_media\<close> create the promise, take its future (lines 229
  and 292), and put the task with the promise into the queue.
\<close>

definition download_media :: "MediaHandler \<Rightarrow> message \<Rightarrow> nat \<times> MediaHandler" where
  "download_media h m =
     (mh_next_promise h,
      h\<lparr>mh_download_queue := mh_download_queue h @ [(new_MediaTask Download m, mh_next_promise h)],
        mh_retrieved := mh_next_promise h # mh_retrieved h,
        mh_next_promise := Suc (mh_next_promise h)\<rparr>)"

definition upload_media :: "MediaHandler \<Rightarrow> int \<Rightarrow> MediaTask \<Rightarrow> nat \<times> MediaHandler" where
  "upload_media h chat_id task =
     (mh_next_promise h,
      h\<lparr>mh_upload_queue := mh_upload_queue h @ [(chat_id, task, mh_next_promise h)],
        mh_retrieved := mh_next_promise h # mh_retrieved h,
        mh_next_promise := Suc (mh_next_promise h)\<rparr>)"

text \<open>
  One iteration of the loop of \<open>download_worker\<close> (lines 445 to 493). The worker leaves
  the loop when the handler is stopped and waits when the queue is empty. Otherwise it
  takes the task at the front of the queue and evaluates the guard of line 468,
  \<open>task && promise.get_future().valid()\<close>, outside the \<open>try\<close>: when the future of the
  promise has been taken before, \<open>get_future()\<close> throws \<open>future_error\<close>, the exception
  leaves the thread and the process is terminated. When it has not, the task is
  downloaded, ends \<open>Completed\<close> or \<open>Failed\<close>, and the promise is set to the task. The
  iteration is taken as one step.
\<close>

definition download_worker :: "backend \<Rightarrow> MediaHandler \<Rightarrow> fault + MediaHandler" where
  "download_worker be h =
     (if \<not> mh_running h then Inr h
      else case mh_download_queue h of
             [] \<Rightarrow> Inr h
           | job # rest \<Rightarrow>
               if snd job \<in> set (mh_retrieved h) then Inl (uncaught future_error)
               else Inr (h\<lparr>mh_download_queue := rest,
                           mh_retrieved := snd job # mh_retrieved h,
                           mh_promises := mh_promises h @
                             [(snd job,
                               Future_value
                                 (Some (download_result be ((fst job)\<lparr>mt_state := Processing\<rparr>))))]\<rparr>))"

text \<open>
  One iteration of the loop of \<open>upload_worker\<close> (lines 501 to 549), with the same guard
  in line 524. The promise is set to the new message, or to the exception of the upload.
\<close>

definition upload_worker :: "backend \<Rightarrow> MediaHandler \<Rightarrow> fault + MediaHandler" where
  "upload_worker be h =
     (if \<not> mh_running h then Inr h
      else case mh_upload_queue h of
             [] \<Rightarrow> Inr h
           | job # rest \<Rightarrow>
               if snd (snd job) \<in> set (mh_retrieved h) then Inl (uncaught future_error)
               else Inr (h\<lparr>mh_upload_queue := rest,
                           mh_retrieved := snd (snd job) # mh_retrieved h,
                           mh_upload_promises := mh_upload_promises h @
                             [(snd (snd job),
                               case send_media_by_type be (fst job)
                                      ((fst (snd job))\<lparr>mt_state := Processing\<rparr>) of
                                 Inr new_id \<Rightarrow> Future_value new_id
                               | Inl e \<Rightarrow> Future_exception e)]\<rparr>))"

text \<open>
  The pool works off a queue: as many iterations as the queue has tasks, each of which
  takes one task, unless the process is terminated before.
\<close>

fun download_workers :: "backend \<Rightarrow> nat \<Rightarrow> MediaHandler \<Rightarrow> fault + MediaHandler" where
  "download_workers be 0 h = Inr h"
| "download_workers be (Suc n) h =
     (case download_worker be h of
        Inl f \<Rightarrow> Inl f
      | Inr h' \<Rightarrow> download_workers be n h')"

fun upload_workers :: "backend \<Rightarrow> nat \<Rightarrow> MediaHandler \<Rightarrow> fault + MediaHandler" where
  "upload_workers be 0 h = Inr h"
| "upload_workers be (Suc n) h =
     (case upload_worker be h of
        Inl f \<Rightarrow> Inl f
      | Inr h' \<Rightarrow> upload_workers be n h')"

definition run_pool :: "backend \<Rightarrow> MediaHandler \<Rightarrow> fault + MediaHandler" where
  "run_pool be h = download_workers be (length (mh_download_queue h)) h"

definition run_upload_pool :: "backend \<Rightarrow> MediaHandler \<Rightarrow> fault + MediaHandler" where
  "run_upload_pool be h = upload_workers be (length (mh_upload_queue h)) h"

text \<open>
  \<open>download_media_group\<close>. The future it returns is ready at once, with a null pointer,
  or it is the future of the detached thread that joins the futures of the single
  downloads in the order of the messages.
\<close>

datatype group_future = Resolved "MediaGroupTask option" | Joining MediaGroupTask "nat list"

fun download_each :: "MediaHandler \<Rightarrow> message list \<Rightarrow> nat list \<times> MediaHandler" where
  "download_each h [] = ([], h)"
| "download_each h (m # ms) =
     (let r = download_media h m; rs = download_each (snd r) ms in (fst r # fst rs, snd rs))"

definition download_media_group :: "MediaHandler \<Rightarrow> message list \<Rightarrow> group_future \<times> MediaHandler" where
  "download_media_group h messages =
     (case messages of
        [] \<Rightarrow> (Resolved None, h)
      | first # others \<Rightarrow>
          (case get_media_group_id first of
             None \<Rightarrow> (Resolved None, h)
           | Some media_group_id \<Rightarrow>
               (let r = download_each h messages
                in (Joining (new_MediaGroupTask media_group_id) (fst r), snd r))))"

text \<open>
  The joining thread (lines 272 to 285): \<open>future.get()\<close> blocks until the future is
  ready, so the thread never ends (\<open>None\<close>) when a future never is; a null task and an
  exception are skipped.
\<close>

fun join_futures ::
  "(nat \<times> MediaTask option future_result) list \<Rightarrow> nat list \<Rightarrow> MediaGroupTask \<Rightarrow> MediaGroupTask option" where
  "join_futures store [] g = Some g"
| "join_futures store (k # ks) g =
     (case map_of store k of
        None \<Rightarrow> None
      | Some (Future_value (Some task)) \<Rightarrow> join_futures store ks (add_task g task)
      | Some (Future_value None) \<Rightarrow> join_futures store ks g
      | Some (Future_exception e) \<Rightarrow> join_futures store ks g)"

text \<open>\<open>get()\<close> on the future of the group: \<open>None\<close> when it never becomes ready.\<close>

definition group_future_get :: "MediaHandler \<Rightarrow> group_future \<Rightarrow> MediaGroupTask option option" where
  "group_future_get h f =
     (case f of
        Resolved v \<Rightarrow> Some v
      | Joining g ks \<Rightarrow> map_option Some (join_futures (mh_promises h) ks g))"

text \<open>The handler after \<open>start()\<close>, with nothing in its queues.\<close>

definition idle_handler :: MediaHandler where
  "idle_handler =
     \<lparr>mh_running = True, mh_download_queue = [], mh_upload_queue = [], mh_retrieved = [],
      mh_promises = [], mh_upload_promises = [], mh_next_promise = 0\<rparr>"

text \<open>Inputs for the examples: a backend on which the downloads of the listed files fail, and an album photo.\<close>

definition example_backend :: "int list \<Rightarrow> backend" where
  "example_backend failing =
     \<lparr>be_get_file = (\<lambda>file_id. Result file_id),
      be_download_file = (\<lambda>file. if file \<in> set failing then Error_response ''unavailable''
                                  else Result (True, ''/tmp/file'')),
      be_read_file = (\<lambda>path. Some ''data''),
      be_file_name = (\<lambda>m. ''media''),
      be_send_album = (\<lambda>chat contents. Result (map (\<lambda>c. 100) contents)),
      be_send_media = (\<lambda>chat content. Result 100),
      be_send_text = (\<lambda>chat text. Result 100),
      be_history_new = Result [],
      be_history_recent = Result []\<rparr>"

definition photo :: "int \<Rightarrow> string \<Rightarrow> message" where
  "photo i album = \<lparr>msg_id = i, msg_chat_id = 1, msg_content = messagePhoto album [], msg_files = [i]\<rparr>"

definition text_message :: "int \<Rightarrow> string \<Rightarrow> message" where
  "text_message i t = \<lparr>msg_id = i, msg_chat_id = 1, msg_content = messageText t, msg_files = []\<rparr>"

section \<open>Forwarding orchestrator (restricted\_channel\_forwarder.cpp)\<close>

datatype ForwarderMode = Continuous | OneTime

datatype MessageTypeFilter =
    Filter_Unknown | Filter_Text | Filter_Photo | Filter_Video | Filter_Document
  | Filter_Audio | Filter_Sticker | Filter_Animation | Filter_All

text \<open>The filters that \<open>init\<close> reads from the configuration: an unknown name is skipped, and no filter at all means \<open>all\<close>.\<close>

definition filter_of_name :: "string \<Rightarrow> MessageTypeFilter option" where
  "filter_of_name name =
     (if name = ''text'' then Some Filter_Text
      else if name = ''photo'' then Some Filter_Photo
      else if name = ''video'' then Some Filter_Video
      else if name = ''document'' then Some Filter_Document
      else if name = ''audio'' then Some Filter_Audio
      else if name = ''sticker'' then Some Filter_Sticker
      else if name = ''animation'' then Some Filter_Animation
      else if name = ''all'' then Some Filter_All
      else None)"

definition init_message_filters :: "string list \<Rightarrow> MessageTypeFilter list" where
  "init_message_filters names =
     (let fs = List.map_filter filter_of_name names in if fs = [] then [Filter_All] else fs)"

text \<open>
  The wait time and the two counters are \<open>int\<close> in the code; the model computes with
  them modulo \<open>2^32\<close> (C++ leaves the overflow of an \<open>int\<close> undefined; the conversion of
  \<open>forwarded_count_ + group_messages.size()\<close> back to \<open>int\<close> is modular). Message ids
  are 64-bit, and the code only compares them.
\<close>

record ForwarderConfig =
  fc_mode :: ForwarderMode
  fc_max_history_messages :: "32 word"
  fc_wait_time_ms :: "32 word"
  fc_message_filters :: "MessageTypeFilter list"
  fc_source_chat_id :: int
  fc_target_chat_id :: int

text \<open>
  What the forwarder asks of the backend, of the engine and of the clock, in the order
  in which it does: the poll of \<open>get_new_messages\<close> (with the cursor it polls from), the
  history query of \<open>get_media_group_messages\<close>, the downloads and uploads it hands to
  the engine, the messages it sends, and its sleeps. The field \<open>fw_trace\<close> of the state
  records them; the code has no such field, and nothing in the model reads it.
\<close>

datatype action =
    Poll int
  | Fetch_group string
  | Download_media int
  | Download_group "int list"
  | Upload_media int
  | Send_text int
  | Send_album "int list"
  | Sleep "32 word"

record forwarder =
  fw_last_message_id :: int
  fw_forwarded_count :: "32 word"
  fw_failed_count :: "32 word"
  fw_processed_media_groups :: "string set"
  fw_trace :: "action list"

fun filter_matches :: "MessageTypeFilter \<Rightarrow> message_content \<Rightarrow> bool" where
  "filter_matches Filter_Text (messageText t) = True"
| "filter_matches Filter_Photo (messagePhoto a c) = True"
| "filter_matches Filter_Video (messageVideo a c) = True"
| "filter_matches Filter_Document (messageDocument a c) = True"
| "filter_matches Filter_Audio (messageAudio a c) = True"
| "filter_matches Filter_Sticker messageSticker = True"
| "filter_matches Filter_Animation (messageAnimation c) = True"
| "filter_matches f c = False"

definition should_forward_message :: "MessageTypeFilter list \<Rightarrow> message \<Rightarrow> bool" where
  "should_forward_message message_filters m =
     (if list_ex (\<lambda>f. f = Filter_All) message_filters then True
      else list_ex (\<lambda>f. filter_matches f (msg_content m)) message_filters)"

definition media_group_processed :: "forwarder \<Rightarrow> string \<Rightarrow> bool" where
  "media_group_processed st media_group_id = (media_group_id \<in> fw_processed_media_groups st)"

fun update_last_message_id :: "forwarder \<Rightarrow> message list \<Rightarrow> forwarder" where
  "update_last_message_id st [] = st"
| "update_last_message_id st (m # ms) =
     update_last_message_id (st\<lparr>fw_last_message_id := max (fw_last_message_id st) (msg_id m)\<rparr>) ms"

text \<open>\<open>RestrictedChannelForwarder::is_media_message\<close>, on the class of the content.\<close>

fun is_media_message :: "message_content \<Rightarrow> bool" where
  "is_media_message (messagePhoto a c) = True"
| "is_media_message (messageVideo a c) = True"
| "is_media_message (messageDocument a c) = True"
| "is_media_message (messageAudio a c) = True"
| "is_media_message (messageAnimation c) = True"
| "is_media_message messageSticker = True"
| "is_media_message c = False"

text \<open>
  The forwarder blocks on every future it gets from the engine. It is the only client
  of the engine, whose queues are empty when it calls, and \<open>forward_worker\<close> has started
  the workers (line 200). While the forwarder waits, the pool works off the queue. The
  call ends with the value of the future; or the process is terminated by a worker; or
  the future never becomes ready and the call never returns.
\<close>

definition download_media_get :: "backend \<Rightarrow> message \<Rightarrow> fault + MediaTask option future_result" where
  "download_media_get be m =
     (let r = download_media idle_handler m in
      case run_pool be (snd r) of
        Inl f \<Rightarrow> Inl f
      | Inr h \<Rightarrow>
          (case map_of (mh_promises h) (fst r) of
             None \<Rightarrow> Inl never_returns
           | Some v \<Rightarrow> Inr v))"

definition upload_media_get :: "backend \<Rightarrow> int \<Rightarrow> MediaTask \<Rightarrow> fault + int future_result" where
  "upload_media_get be chat_id task =
     (let r = upload_media idle_handler chat_id task in
      case run_upload_pool be (snd r) of
        Inl f \<Rightarrow> Inl f
      | Inr h \<Rightarrow>
          (case map_of (mh_upload_promises h) (fst r) of
             None \<Rightarrow> Inl never_returns
           | Some v \<Rightarrow> Inr v))"

definition download_media_group_get :: "backend \<Rightarrow> message list \<Rightarrow> fault + MediaGroupTask option" where
  "download_media_group_get be messages =
     (let r = download_media_group idle_handler messages in
      case run_pool be (snd r) of
        Inl f \<Rightarrow> Inl f
      | Inr h \<Rightarrow>
          (case group_future_get h (fst r) of
             None \<Rightarrow> Inl never_returns
           | Some v \<Rightarrow> Inr v))"

text \<open>
  \<open>upload_media_group\<close>, which sends from a thread of its own: the contents of the album
  in the order of the tasks, a task of another media type than photo, video and
  document left out, the caption on the content built at index 0.
\<close>

fun album_contents :: "nat \<Rightarrow> string \<Rightarrow> MediaTask list \<Rightarrow> (MediaType \<times> MemoryBuffer \<times> string) list" where
  "album_contents i cap [] = []"
| "album_contents i cap (t # ts) =
     (let media_type = get_media_type (mt_message t) in
      if media_type = Media_Photo \<or> media_type = Media_Video \<or> media_type = Media_Document
      then (media_type, mt_buffer t, if i = 0 \<and> cap \<noteq> [] then cap else [])
             # album_contents (Suc i) cap ts
      else album_contents (Suc i) cap ts)"

definition upload_media_group :: "backend \<Rightarrow> int \<Rightarrow> MediaGroupTask \<Rightarrow> (exn + int list) \<times> action list" where
  "upload_media_group be chat_id g =
     (if mg_tasks g = [] then (Inr [], [])
      else
        ((case be_send_album be chat_id (album_contents 0 (caption g) (mg_tasks g)) of
            Timed_out \<Rightarrow> Inl request_timeout
          | Error_response e \<Rightarrow> Inl (runtime_error (''cannot send the album: '' @ e))
          | Result new_ids \<Rightarrow> Inr new_ids),
         [Send_album (map (\<lambda>t. msg_id (mt_message t)) (mg_tasks g))]))"

definition forward_text_message :: "ForwarderConfig \<Rightarrow> backend \<Rightarrow> message \<Rightarrow> (exn + bool) \<times> action list" where
  "forward_text_message cfg be m =
     ((case be_send_text be (fc_target_chat_id cfg) (content_caption (msg_content m)) of
         Timed_out \<Rightarrow> Inl request_timeout
       | Error_response e \<Rightarrow> Inr False
       | Result new_id \<Rightarrow> Inr True),
      [Send_text (msg_id m)])"

text \<open>\<open>forward_media_message\<close> catches every exception.\<close>

definition forward_media_message ::
  "ForwarderConfig \<Rightarrow> backend \<Rightarrow> message \<Rightarrow> fault + (bool \<times> action list)" where
  "forward_media_message cfg be m =
     (case download_media_get be m of
        Inl f \<Rightarrow> Inl f
      | Inr (Future_exception e) \<Rightarrow> Inr (False, [Download_media (msg_id m)])
      | Inr (Future_value None) \<Rightarrow> Inr (False, [Download_media (msg_id m)])
      | Inr (Future_value (Some media_task)) \<Rightarrow>
          if mt_state media_task \<noteq> Completed then Inr (False, [Download_media (msg_id m)])
          else
            (case upload_media_get be (fc_target_chat_id cfg) media_task of
               Inl f \<Rightarrow> Inl f
             | Inr (Future_exception e) \<Rightarrow>
                 Inr (False, [Download_media (msg_id m), Upload_media (msg_id m)])
             | Inr (Future_value new_id) \<Rightarrow>
                 Inr (True, [Download_media (msg_id m), Upload_media (msg_id m)])))"

definition forward_message ::
  "ForwarderConfig \<Rightarrow> backend \<Rightarrow> message \<Rightarrow> fault + ((exn + bool) \<times> action list)" where
  "forward_message cfg be m =
     (case msg_content m of
        messageText t \<Rightarrow> Inr (forward_text_message cfg be m)
      | c \<Rightarrow>
          if is_media_message c
          then (case forward_media_message cfg be m of
                  Inl f \<Rightarrow> Inl f
                | Inr r \<Rightarrow> Inr (Inr (fst r), snd r))
          else Inr (Inr False, []))"

text \<open>
  \<open>forward_media_group\<close> catches every exception. The loop of lines 585 to 587 never
  ends when a task of the group is neither \<open>Completed\<close> nor \<open>Failed\<close>: no worker holds
  the task any more.
\<close>

definition forward_media_group ::
  "ForwarderConfig \<Rightarrow> backend \<Rightarrow> message list \<Rightarrow> fault + (bool \<times> action list)" where
  "forward_media_group cfg be messages =
     (case download_media_group_get be messages of
        Inl f \<Rightarrow> Inl f
      | Inr None \<Rightarrow> Inr (False, [])
      | Inr (Some group_task) \<Rightarrow>
          if \<not> is_completed group_task then Inl never_returns
          else if 0 < failed_count group_task
          then Inr (False, [Download_group (map msg_id messages)])
          else
            (case upload_media_group be (fc_target_chat_id cfg) group_task of
               (Inl e, sent) \<Rightarrow> Inr (False, Download_group (map msg_id messages) # sent)
             | (Inr new_messages, sent) \<Rightarrow>
                 Inr (new_messages \<noteq> [], Download_group (map msg_id messages) # sent)))"

definition get_new_messages :: "backend \<Rightarrow> int \<Rightarrow> exn + message list" where
  "get_new_messages be last_message_id =
     (case be_history_new be of
        Timed_out \<Rightarrow> Inl request_timeout
      | Error_response e \<Rightarrow> Inl (runtime_error (''cannot get the chat history: '' @ e))
      | Result messages \<Rightarrow>
          Inr (sort_key msg_id (filter (\<lambda>m. last_message_id < msg_id m) messages)))"

definition get_media_group_messages :: "backend \<Rightarrow> string \<Rightarrow> exn + message list" where
  "get_media_group_messages be media_group_id =
     (case be_history_recent be of
        Timed_out \<Rightarrow> Inl request_timeout
      | Error_response e \<Rightarrow> Inl (runtime_error (''cannot get the messages of the group: '' @ e))
      | Result messages \<Rightarrow>
          Inr (sort_key msg_id
                 (filter (\<lambda>m. get_media_group_id m = Some media_group_id) messages)))"

definition record_actions :: "action list \<Rightarrow> forwarder \<Rightarrow> forwarder" where
  "record_actions acts st = st\<lparr>fw_trace := fw_trace st @ acts\<rparr>"

text \<open>
  The body of the loop over the new messages (lines 213 to 274), with its \<open>catch\<close>: an
  exception counts one failure.
\<close>

definition handle_group :: "ForwarderConfig \<Rightarrow> backend \<Rightarrow> forwarder \<Rightarrow> string \<Rightarrow> fault + forwarder" where
  "handle_group cfg be st media_group_id =
     (case get_media_group_messages be media_group_id of
        Inl e \<Rightarrow>
          Inr (record_actions [Fetch_group media_group_id]
                 (st\<lparr>fw_failed_count := fw_failed_count st + 1\<rparr>))
      | Inr group_messages \<Rightarrow>
          if group_messages \<noteq> [] then
            (case forward_media_group cfg be group_messages of
               Inl f \<Rightarrow> Inl f
             | Inr (True, acts) \<Rightarrow>
                 Inr (record_actions (Fetch_group media_group_id # acts)
                   (update_last_message_id
                      (st\<lparr>fw_forwarded_count :=
                            fw_forwarded_count st + of_nat (length group_messages),
                          fw_processed_media_groups :=
                            insert media_group_id (fw_processed_media_groups st)\<rparr>)
                      group_messages))
             | Inr (False, acts) \<Rightarrow>
                 Inr (record_actions (Fetch_group media_group_id # acts)
                   (st\<lparr>fw_failed_count := fw_failed_count st + of_nat (length group_messages)\<rparr>)))
          else Inr (record_actions [Fetch_group media_group_id] st))"

definition handle_single :: "ForwarderConfig \<Rightarrow> backend \<Rightarrow> forwarder \<Rightarrow> message \<Rightarrow> fault + forwarder" where
  "handle_single cfg be st m =
     (case forward_message cfg be m of
        Inl f \<Rightarrow> Inl f
      | Inr (Inr True, acts) \<Rightarrow>
          Inr (record_actions acts
            (st\<lparr>fw_forwarded_count := fw_forwarded_count st + 1,
                fw_last_message_id := max (fw_last_message_id st) (msg_id m)\<rparr>))
      | Inr (Inr False, acts) \<Rightarrow>
          Inr (record_actions acts (st\<lparr>fw_failed_count := fw_failed_count st + 1\<rparr>))
      | Inr (Inl e, acts) \<Rightarrow>
          Inr (record_actions acts (st\<lparr>fw_failed_count := fw_failed_count st + 1\<rparr>)))"

definition handle_message :: "ForwarderConfig \<Rightarrow> backend \<Rightarrow> forwarder \<Rightarrow> message \<Rightarrow> fault + forwarder" where
  "handle_message cfg be st m =
     (if \<not> should_forward_message (fc_message_filters cfg) m then Inr st
      else
        (case get_media_group_id m of
           Some media_group_id \<Rightarrow>
             if \<not> media_group_processed st media_group_id
             then handle_group cfg be st media_group_id
             else Inr (st\<lparr>fw_last_message_id := max (fw_last_message_id st) (msg_id m)\<rparr>)
         | None \<Rightarrow> handle_single cfg be st m))"

fun forward_messages ::
  "ForwarderConfig \<Rightarrow> backend \<Rightarrow> forwarder \<Rightarrow> message list \<Rightarrow> fault + forwarder" where
  "forward_messages cfg be st [] = Inr st"
| "forward_messages cfg be st (m # ms) =
     (case handle_message cfg be st m of
        Inl f \<Rightarrow> Inl f
      | Inr st' \<Rightarrow> forward_messages cfg be st' ms)"

text \<open>
  Line 283 is the statement \<open>breaking;\<close>. It is not a \<open>break\<close> statement: it names an
  identifier that nothing declares, and it transfers control nowhere. The model gives
  it no effect.
\<close>

definition breaking :: "forwarder \<Rightarrow> forwarder" where
  "breaking st = st"

text \<open>
  One iteration of the loop of \<open>forward_worker\<close> (lines 204 to 293), on the backend as
  it is during this iteration.
\<close>

definition forward_cycle :: "ForwarderConfig \<Rightarrow> backend \<Rightarrow> forwarder \<Rightarrow> fault + forwarder" where
  "forward_cycle cfg be st =
     (let polled = record_actions [Poll (fw_last_message_id st)] st in
      case get_new_messages be (fw_last_message_id st) of
        Inl e \<Rightarrow> Inr (record_actions [Sleep (fc_wait_time_ms cfg * 2)] polled)
      | Inr messages \<Rightarrow>
          (case forward_messages cfg be polled messages of
             Inl f \<Rightarrow> Inl f
           | Inr handled \<Rightarrow>
               Inr (record_actions [Sleep (fc_wait_time_ms cfg)]
                 (if fc_mode cfg = OneTime \<and> messages \<noteq> [] then breaking handled
                  else handled))))"

text \<open>
  The loop of \<open>forward_worker\<close>: one backend for every iteration that finds
  \<open>running_ && !stopping_\<close>; the list ends where \<open>stop()\<close> has set \<open>stopping_\<close>.
\<close>

fun forward_worker :: "ForwarderConfig \<Rightarrow> backend list \<Rightarrow> forwarder \<Rightarrow> fault + forwarder" where
  "forward_worker cfg [] st = Inr st"
| "forward_worker cfg (be # bes) st =
     (case forward_cycle cfg be st of
        Inl f \<Rightarrow> Inl f
      | Inr st' \<Rightarrow> forward_worker cfg bes st')"

definition example_config :: "ForwarderMode \<Rightarrow> MessageTypeFilter list \<Rightarrow> ForwarderConfig" where
  "example_config mode filters =
     \<lparr>fc_mode = mode, fc_max_history_messages = 100, fc_wait_time_ms = 1000,
      fc_message_filters = filters, fc_source_chat_id = 1, fc_target_chat_id = 2\<rparr>"

definition started :: "int \<Rightarrow> forwarder" where
  "started latest =
     \<lparr>fw_last_message_id = latest, fw_forwarded_count = 0, fw_failed_count = 0,
      fw_processed_media_groups = {}, fw_trace = []\<rparr>"

section \<open>Dedup sets (declared in the header of the forwarder)\<close>



text \<open>
  Modelled from the spec: once the size threshold is exceeded, the oldest-inserted
  entries are evicted, as many as the set has above the threshold.
\<close>

definition evict_oldest :: "nat \<Rightarrow> 'a list \<Rightarrow> 'a list" where
  "evict_oldest threshold xs = drop (length xs - threshold) xs"






section \<open>Properties of the request gateway\<close>

text \<open>
  Claim C1 fails on the code. Two requests are pending, with the ids 1 and 2 and the
  completion handlers \<open>callback 1\<close> and \<open>callback 2\<close>. The response \<open>ok\<close> to request 2
  arrives: \<open>process_updates\<close> drops its request id, and \<open>process_response\<close> takes the
  handler at \<open>response_handlers_.begin()\<close>. The handler of request 1 is called on the
  response and erased; the handler of request 2 stays pending.
\<close>

theorem process_response_ignores_request_id:
  "process_update no_auth_env
     (idle_client\<lparr>cm_response_handlers := [(1, callback 1), (2, callback 2)], cm_query_id := 2\<rparr>)
     \<lparr>in_client_id = 1, in_request_id = 2, in_object = Some ok\<rparr>
   = Inr (idle_client\<lparr>cm_response_handlers := [(2, callback 2)], cm_query_id := 2,
                        cm_calls := [(callback 1, ok)]\<rparr>)"
  by (simp add: process_update_def process_response_def dispatch_object_def idle_client_def)

text \<open>
  Claim C7 fails on the code, by the defect of claim C1. Request 1 is pending with the
  handler \<open>callback 7\<close>; a call of \<open>send_query\<close> gets the id 2, receives nothing, times
  out and erases its handler. The response \<open>ok\<close> to request 2 arrives afterwards. It is
  not dropped: the handler of request 1 is called on it and erased. And a call of
  \<open>send_query\<close> on the idle client, whose request gets the id 1 and is never answered,
  does not time out when the response \<open>ok\<close> to another request, with the request id 77,
  arrives during the wait: the call returns that object.
\<close>

theorem late_response_reaches_other_handler:
  "send_query no_auth_env
       (idle_client\<lparr>cm_response_handlers := [(1, callback 7)], cm_query_id := 1\<rparr>) (query 5) []
     = Inr (Inl request_timeout,
            idle_client\<lparr>cm_response_handlers := [(1, callback 7)], cm_query_id := 2,
                          cm_sent := [(2, query 5)], cm_next_promise := 1\<rparr>) \<and>
   process_update no_auth_env
       (idle_client\<lparr>cm_response_handlers := [(1, callback 7)], cm_query_id := 2,
                      cm_sent := [(2, query 5)], cm_next_promise := 1\<rparr>)
       \<lparr>in_client_id = 1, in_request_id = 2, in_object = Some ok\<rparr>
     = Inr (idle_client\<lparr>cm_response_handlers := [], cm_query_id := 2,
                          cm_sent := [(2, query 5)], cm_next_promise := 1,
                          cm_calls := [(callback 7, ok)]\<rparr>) \<and>
   send_query no_auth_env idle_client (query 5)
       [\<lparr>in_client_id = 1, in_request_id = 77, in_object = Some ok\<rparr>]
     = Inr (Inr ok,
            idle_client\<lparr>cm_query_id := 1, cm_sent := [(1, query 5)], cm_next_promise := 1,
                          cm_calls := [(promise_setter 0, ok)]\<rparr>)"
  by (simp add: send_query_def send_query_async_def idle_client_def process_update_def
      process_response_def dispatch_object_def promise_value_def map_erase_def Let_def)

section \<open>Properties of the media transfer engine\<close>

text \<open>
  Every task that \<open>download_media\<close> or \<open>upload_media\<close> puts into a queue carries a promise
  whose future has been taken. The worker that takes the task asks the promise for its
  future a second time, and the process is terminated: no download and no upload of the
  engine ever runs.
\<close>

lemma download_worker_retrieved:
  assumes "mh_running h" and "mh_download_queue h = job # rest"
    and "snd job \<in> set (mh_retrieved h)"
  shows "download_worker be h = Inl (uncaught future_error)"
  using assms by (simp add: download_worker_def)

lemma upload_worker_retrieved:
  assumes "mh_running h" and "mh_upload_queue h = job # rest"
    and "snd (snd job) \<in> set (mh_retrieved h)"
  shows "upload_worker be h = Inl (uncaught future_error)"
  using assms by (simp add: upload_worker_def)

lemma download_media_props:
  "mh_running (snd (download_media h m)) = mh_running h"
  "mh_download_queue (snd (download_media h m))
     = mh_download_queue h @ [(new_MediaTask Download m, mh_next_promise h)]"
  "set (mh_retrieved h) \<subseteq> set (mh_retrieved (snd (download_media h m)))"
  "mh_next_promise h \<in> set (mh_retrieved (snd (download_media h m)))"
  "mh_promises (snd (download_media h m)) = mh_promises h"
  by (auto simp: download_media_def)

lemma download_each_props:
  "mh_running (snd (download_each h ms)) = mh_running h"
  "set (mh_retrieved h) \<subseteq> set (mh_retrieved (snd (download_each h ms)))"
  "mh_promises (snd (download_each h ms)) = mh_promises h"
  "\<exists>more. mh_download_queue (snd (download_each h ms)) = mh_download_queue h @ more
           \<and> length more = length ms"
proof (induction ms arbitrary: h)
  case Nil
  { case 1 show ?case by simp }
  { case 2 show ?case by simp }
  { case 3 show ?case by simp }
  { case 4 show ?case by simp }
next
  case (Cons m ms)
  { case 1 show ?case using Cons.IH(1)[of "snd (download_media h m)"]
      by (simp add: Let_def download_media_props) }
  { case 2 show ?case
      using Cons.IH(2)[of "snd (download_media h m)"] download_media_props(3)[of h m]
      by (auto simp: Let_def) }
  { case 3 show ?case using Cons.IH(3)[of "snd (download_media h m)"]
      by (simp add: Let_def download_media_props) }
  { case 4
    from Cons.IH(4)[of "snd (download_media h m)"] obtain more where
      "mh_download_queue (snd (download_each (snd (download_media h m)) ms))
         = mh_download_queue (snd (download_media h m)) @ more" and "length more = length ms"
      by blast
    then show ?case by (simp add: Let_def download_media_props) }
qed

text \<open>The first message of a non-empty list: its task is at the front of the queue of the idle handler, and the future of its promise has been taken.\<close>

lemma download_each_idle:
  "\<exists>job rest. mh_download_queue (snd (download_each idle_handler (m # ms))) = job # rest
      \<and> snd job \<in> set (mh_retrieved (snd (download_each idle_handler (m # ms))))
      \<and> mh_running (snd (download_each idle_handler (m # ms)))"
proof -
  let ?h1 = "snd (download_media idle_handler m)"
  have q1: "mh_download_queue ?h1 = [(new_MediaTask Download m, 0)]"
    by (simp add: download_media_def idle_handler_def)
  have r1: "0 \<in> set (mh_retrieved ?h1)" by (simp add: download_media_def idle_handler_def)
  have run: "mh_running ?h1" by (simp add: download_media_def idle_handler_def)
  obtain more where q: "mh_download_queue (snd (download_each ?h1 ms)) = mh_download_queue ?h1 @ more"
    using download_each_props(4)[of ?h1 ms] by blast
  have r: "0 \<in> set (mh_retrieved (snd (download_each ?h1 ms)))"
    using download_each_props(2)[of ?h1 ms] r1 by blast
  have "mh_running (snd (download_each ?h1 ms))" using download_each_props(1)[of ?h1 ms] run by simp
  then show ?thesis using q q1 r by (simp add: Let_def)
qed

lemma download_workers_front:
  assumes "mh_running h" and "mh_download_queue h = job # rest"
    and "snd job \<in> set (mh_retrieved h)"
  shows "run_pool be h = Inl (uncaught future_error)"
  using assms download_worker_retrieved[OF assms, of be] by (simp add: run_pool_def)

lemma download_media_get_fault: "download_media_get be m = Inl (uncaught future_error)"
proof -
  have "run_pool be (snd (download_media idle_handler m)) = Inl (uncaught future_error)"
    by (rule download_workers_front[where job = "(new_MediaTask Download m, 0)" and rest = "[]"])
       (simp_all add: download_media_def idle_handler_def)
  then show ?thesis by (simp add: download_media_get_def Let_def)
qed

lemma upload_media_get_fault: "upload_media_get be chat_id task = Inl (uncaught future_error)"
proof -
  have "upload_worker be (snd (upload_media idle_handler chat_id task)) = Inl (uncaught future_error)"
    by (rule upload_worker_retrieved[where job = "(chat_id, task, 0)" and rest = "[]"])
       (simp_all add: upload_media_def idle_handler_def)
  then show ?thesis
    by (simp add: upload_media_get_def run_upload_pool_def upload_media_def idle_handler_def Let_def)
qed

lemma download_media_group_get_null:
  assumes "messages = [] \<or> (\<exists>first others. messages = first # others \<and> get_media_group_id first = None)"
  shows "download_media_group_get be messages = Inr None"
  using assms
  by (auto simp: download_media_group_get_def download_media_group_def run_pool_def
      group_future_get_def idle_handler_def Let_def)

lemma download_media_group_get_fault:
  assumes "get_media_group_id first = Some g"
  shows "download_media_group_get be (first # others) = Inl (uncaught future_error)"
proof -
  let ?h = "snd (download_each idle_handler (first # others))"
  obtain job rest where "mh_download_queue ?h = job # rest" "snd job \<in> set (mh_retrieved ?h)"
    "mh_running ?h"
    using download_each_idle[of first others] by blast
  then have "run_pool be ?h = Inl (uncaught future_error)"
    using download_workers_front by blast
  then show ?thesis using assms
    by (simp add: download_media_group_get_def download_media_group_def Let_def del: download_each.simps)
qed

text \<open>
  Claim C4 fails on the code. \<open>download_media_group\<close> is called on an album of two
  photos, on a backend on which every download would succeed. Both tasks are in the
  queue and the future of the group is not ready. The worker that takes the first task
  evaluates \<open>promise.get_future()\<close> on a promise whose future \<open>download_media\<close> has
  taken: \<open>future_error\<close> leaves the thread and the process is terminated. No task is
  downloaded, no promise is set and no group task is produced.
\<close>

theorem download_media_group_terminated:
  "fst (download_media_group idle_handler [photo 1 ''g'', photo 2 ''g''])
     = Joining (new_MediaGroupTask ''g'') [0, 1] \<and>
   map snd (mh_download_queue (snd (download_media_group idle_handler [photo 1 ''g'', photo 2 ''g''])))
     = [0, 1] \<and>
   mh_retrieved (snd (download_media_group idle_handler [photo 1 ''g'', photo 2 ''g''])) = [1, 0] \<and>
   group_future_get (snd (download_media_group idle_handler [photo 1 ''g'', photo 2 ''g'']))
       (fst (download_media_group idle_handler [photo 1 ''g'', photo 2 ''g''])) = None \<and>
   download_worker (example_backend [])
       (snd (download_media_group idle_handler [photo 1 ''g'', photo 2 ''g'']))
     = Inl (uncaught future_error) \<and>
   download_media_group_get (example_backend []) [photo 1 ''g'', photo 2 ''g'']
     = Inl (uncaught future_error)"
  by (simp add: download_media_group_def download_media_group_get_def download_media_def
      download_worker_def run_pool_def group_future_get_def get_media_group_id_def
      photo_def idle_handler_def Let_def)

text \<open>
  Claim C10: called with an empty list of messages, or with a list whose first message
  carries no album id, \<open>download_media_group\<close> leaves the handler as it is (nothing is
  put into the download queue), and the future it returns resolves to the null pointer.
\<close>

theorem download_media_group_null:
  assumes "messages = [] \<or> (\<exists>first others. messages = first # others \<and> get_media_group_id first = None)"
  shows "download_media_group h messages = (Resolved None, h)
         \<and> group_future_get h (Resolved None) = Some None"
  using assms by (auto simp: download_media_group_def group_future_get_def)

theorem download_media_group_null_witness:
  "download_media_group idle_handler [] = (Resolved None, idle_handler)
   \<and> get_media_group_id (text_message 3 ''hello'') = None
   \<and> download_media_group idle_handler [text_message 3 ''hello'', photo 4 ''g'']
       = (Resolved None, idle_handler)
   \<and> group_future_get idle_handler (Resolved None) = Some None"
proof -
  have a: "get_media_group_id (text_message 3 ''hello'') = None"
    by (simp add: get_media_group_id_def text_message_def)
  have b: "[text_message 3 ''hello'', photo 4 ''g''] = [] \<or>
           (\<exists>first others. [text_message 3 ''hello'', photo 4 ''g''] = first # others
              \<and> get_media_group_id first = None)"
    using a by simp
  show ?thesis
    using download_media_group_null[of "[]" idle_handler] download_media_group_null[OF b, of idle_handler] a
    by simp
qed

section \<open>Properties of the forwarding orchestrator\<close>

text \<open>
  What the defect of the workers leaves of the forwarder: a media message outside a
  group terminates the process, and so does every group whose messages the history
  returns. \<open>forward_media_group\<close> never returns true, so the forwarder never marks a
  group and never counts a forwarded group.
\<close>

lemma download_media_group_get_cases:
  "download_media_group_get be messages = Inr None
   \<or> download_media_group_get be messages = Inl (uncaught future_error)"
proof (cases messages)
  case Nil
  then show ?thesis using download_media_group_get_null[of messages be] by simp
next
  case (Cons first others)
  show ?thesis
  proof (cases "get_media_group_id first")
    case None
    then show ?thesis using Cons download_media_group_get_null[of messages be] by simp
  next
    case (Some g)
    then show ?thesis using Cons download_media_group_get_fault[of first g be others] by simp
  qed
qed

lemma forward_media_message_fault:
  "forward_media_message cfg be m = Inl (uncaught future_error)"
  by (simp add: forward_media_message_def download_media_get_fault)

lemma forward_media_group_cases:
  "forward_media_group cfg be messages = Inr (False, [])
   \<or> forward_media_group cfg be messages = Inl (uncaught future_error)"
  using download_media_group_get_cases[of be messages]
  by (auto simp: forward_media_group_def)

lemma forward_message_cases:
  "forward_message cfg be m = Inr (forward_text_message cfg be m)
   \<or> forward_message cfg be m = Inr (Inr False, [])
   \<or> forward_message cfg be m = Inl (uncaught future_error)"
  by (cases "msg_content m") (simp_all add: forward_message_def forward_media_message_fault)

lemma update_last_message_id_props:
  "fw_last_message_id st \<le> fw_last_message_id (update_last_message_id st ms)"
  "fw_processed_media_groups (update_last_message_id st ms) = fw_processed_media_groups st"
  "fw_forwarded_count (update_last_message_id st ms) = fw_forwarded_count st"
  "fw_failed_count (update_last_message_id st ms) = fw_failed_count st"
  "fw_trace (update_last_message_id st ms) = fw_trace st"
proof (induction ms arbitrary: st)
  case Nil
  { case 1 show ?case by simp }
  { case 2 show ?case by simp }
  { case 3 show ?case by simp }
  { case 4 show ?case by simp }
  { case 5 show ?case by simp }
next
  case (Cons m ms)
  { case 1 show ?case
      using Cons.IH(1)[of "st\<lparr>fw_last_message_id := max (fw_last_message_id st) (msg_id m)\<rparr>"]
      by simp }
  { case 2 show ?case by (simp add: Cons.IH(2)) }
  { case 3 show ?case by (simp add: Cons.IH(3)) }
  { case 4 show ?case by (simp add: Cons.IH(4)) }
  { case 5 show ?case by (simp add: Cons.IH(5)) }
qed

lemma handle_group_unchanged:
  assumes "handle_group cfg be st g = Inr st'"
  shows "fw_last_message_id st' = fw_last_message_id st
         \<and> fw_processed_media_groups st' = fw_processed_media_groups st
         \<and> fw_forwarded_count st' = fw_forwarded_count st"
proof (cases "get_media_group_messages be g")
  case (Inl e)
  then show ?thesis using assms by (auto simp: handle_group_def record_actions_def)
next
  case (Inr gm)
  show ?thesis
  proof (cases "gm = []")
    case True
    then show ?thesis using assms Inr by (auto simp: handle_group_def record_actions_def)
  next
    case False
    from forward_media_group_cases[of cfg be gm] show ?thesis
    proof
      assume "forward_media_group cfg be gm = Inr (False, [])"
      then show ?thesis using assms Inr False by (auto simp: handle_group_def record_actions_def)
    next
      assume "forward_media_group cfg be gm = Inl (uncaught future_error)"
      then show ?thesis using assms Inr False by (simp add: handle_group_def)
    qed
  qed
qed

lemma handle_single_cursor:
  assumes "handle_single cfg be st m = Inr st'"
  shows "fw_last_message_id st \<le> fw_last_message_id st'
         \<and> fw_processed_media_groups st' = fw_processed_media_groups st"
  using assms
  by (auto simp: handle_single_def record_actions_def split: sum.splits bool.splits)

lemma handle_message_cursor:
  assumes "handle_message cfg be st m = Inr st'"
  shows "fw_last_message_id st \<le> fw_last_message_id st'
         \<and> fw_processed_media_groups st' = fw_processed_media_groups st"
proof (cases "should_forward_message (fc_message_filters cfg) m")
  case False
  then show ?thesis using assms by (simp add: handle_message_def)
next
  case True
  show ?thesis
  proof (cases "get_media_group_id m")
    case None
    then show ?thesis using assms True handle_single_cursor[of cfg be st m st']
      by (simp add: handle_message_def)
  next
    case (Some g)
    show ?thesis
    proof (cases "media_group_processed st g")
      case True
      then show ?thesis using assms Some \<open>should_forward_message (fc_message_filters cfg) m\<close>
        by (auto simp: handle_message_def)
    next
      case False
      then show ?thesis
        using assms Some True handle_group_unchanged[of cfg be st g st']
        by (simp add: handle_message_def)
    qed
  qed
qed

lemma forward_messages_cursor:
  assumes "forward_messages cfg be st ms = Inr st'"
  shows "fw_last_message_id st \<le> fw_last_message_id st'
         \<and> fw_processed_media_groups st' = fw_processed_media_groups st"
  using assms
proof (induction ms arbitrary: st)
  case Nil
  then show ?case by simp
next
  case (Cons m ms)
  then obtain s where s: "handle_message cfg be st m = Inr s"
    and r: "forward_messages cfg be s ms = Inr st'"
    by (auto split: sum.splits)
  from handle_message_cursor[OF s] Cons.IH[OF r] show ?case by simp
qed

lemma forward_cycle_cursor:
  assumes "forward_cycle cfg be st = Inr st'"
  shows "fw_last_message_id st \<le> fw_last_message_id st'
         \<and> fw_processed_media_groups st' = fw_processed_media_groups st"
proof (cases "get_new_messages be (fw_last_message_id st)")
  case (Inl e)
  then show ?thesis using assms by (auto simp: forward_cycle_def record_actions_def Let_def)
next
  case (Inr ms)
  then obtain s where s: "forward_messages cfg be (record_actions [Poll (fw_last_message_id st)] st) ms = Inr s"
    and r: "st' = record_actions [Sleep (fc_wait_time_ms cfg)] s"
    using assms by (auto simp: forward_cycle_def breaking_def Let_def split: sum.splits if_splits)
  from forward_messages_cursor[OF s] r show ?thesis by (simp add: record_actions_def)
qed

lemma forward_worker_cursor:
  assumes "forward_worker cfg bes st = Inr st'"
  shows "fw_last_message_id st \<le> fw_last_message_id st'
         \<and> fw_processed_media_groups st' = fw_processed_media_groups st"
  using assms
proof (induction bes arbitrary: st)
  case Nil
  then show ?case by simp
next
  case (Cons be bes)
  then obtain s where s: "forward_cycle cfg be st = Inr s"
    and r: "forward_worker cfg bes s = Inr st'"
    by (auto split: sum.splits)
  from forward_cycle_cursor[OF s] Cons.IH[OF r] show ?case by simp
qed

lemma forward_worker_append:
  "forward_worker cfg (bes1 @ bes2) st =
     (case forward_worker cfg bes1 st of
        Inl f \<Rightarrow> Inl f
      | Inr s \<Rightarrow> forward_worker cfg bes2 s)"
  by (induction bes1 arbitrary: st) (auto split: sum.splits)

text \<open>
  Claim C6: the cursor never decreases. Whenever the loop of \<open>forward_worker\<close> has come
  through a number of iterations, the cursor is at or above where it started; and
  whenever it comes through further iterations, the cursor is at or above where it was.
  (Every assignment to \<open>last_message_id_\<close> is a \<open>std::max\<close> with its old value, and the
  iteration whose poll throws assigns nothing.)
\<close>

theorem cursor_monotone:
  assumes "forward_worker cfg bes1 st = Inr s1"
    and "forward_worker cfg (bes1 @ bes2) st = Inr s2"
  shows "fw_last_message_id st \<le> fw_last_message_id s1
         \<and> fw_last_message_id s1 \<le> fw_last_message_id s2"
proof -
  from assms have "forward_worker cfg bes2 s1 = Inr s2" by (simp add: forward_worker_append)
  then show ?thesis using forward_worker_cursor[OF assms(1)] forward_worker_cursor[of cfg bes2 s1 s2]
    by simp
qed

theorem cursor_monotone_witness:
  "forward_worker (example_config Continuous [Filter_All])
     [(example_backend [])\<lparr>be_history_new := Timed_out\<rparr>] (started 4)
     = Inr \<lparr>fw_last_message_id = 4, fw_forwarded_count = 0, fw_failed_count = 0,
            fw_processed_media_groups = {}, fw_trace = [Poll 4, Sleep 2000]\<rparr> \<and>
   forward_worker (example_config Continuous [Filter_All])
     ([(example_backend [])\<lparr>be_history_new := Timed_out\<rparr>] @
      [(example_backend [])\<lparr>be_history_new := Result [text_message 5 ''hi'']\<rparr>]) (started 4)
     = Inr \<lparr>fw_last_message_id = 5, fw_forwarded_count = 1, fw_failed_count = 0,
            fw_processed_media_groups = {},
            fw_trace = [Poll 4, Sleep 2000, Poll 4, Send_text 5, Sleep 1000]\<rparr> \<and>
   fw_last_message_id (started 4) \<le> 4 \<and> (4::int) \<le> 5"
proof -
  let ?cfg = "example_config Continuous [Filter_All]"
  let ?b1 = "(example_backend [])\<lparr>be_history_new := Timed_out\<rparr>"
  let ?b2 = "(example_backend [])\<lparr>be_history_new := Result [text_message 5 ''hi'']\<rparr>"
  have a: "forward_worker ?cfg [?b1] (started 4)
     = Inr \<lparr>fw_last_message_id = 4, fw_forwarded_count = 0, fw_failed_count = 0,
            fw_processed_media_groups = {}, fw_trace = [Poll 4, Sleep 2000]\<rparr>"
    by (simp add: forward_cycle_def get_new_messages_def record_actions_def example_config_def
        example_backend_def started_def Let_def)
  have b: "forward_worker ?cfg ([?b1] @ [?b2]) (started 4)
     = Inr \<lparr>fw_last_message_id = 5, fw_forwarded_count = 1, fw_failed_count = 0,
            fw_processed_media_groups = {},
            fw_trace = [Poll 4, Sleep 2000, Poll 4, Send_text 5, Sleep 1000]\<rparr>"
    by (simp add: forward_cycle_def get_new_messages_def handle_message_def handle_single_def
        forward_message_def forward_text_message_def get_media_group_id_def
        should_forward_message_def record_actions_def breaking_def example_config_def
        example_backend_def started_def text_message_def Let_def)
  show ?thesis using cursor_monotone[OF a b] a b by simp
qed

text \<open>
  Claim C2, as stated, fails. A text message with id 5 arrives while the cursor is 4.
  With the filter \<open>photo\<close> the message fails the filter, and after the cycle the cursor
  is still 4. With the filter \<open>all\<close> and a backend that refuses the \<open>sendMessage\<close>, the
  forwarding fails, the cursor is still 4 after the cycle, and the next cycle polls from
  4 again and sends the same message a second time.
\<close>

theorem unforwarded_message_not_passed:
  "\<not> should_forward_message [Filter_Photo] (text_message 5 ''hi'') \<and>
   forward_worker (example_config Continuous [Filter_Photo])
     [(example_backend [])\<lparr>be_history_new := Result [text_message 5 ''hi'']\<rparr>] (started 4)
     = Inr \<lparr>fw_last_message_id = 4, fw_forwarded_count = 0, fw_failed_count = 0,
            fw_processed_media_groups = {}, fw_trace = [Poll 4, Sleep 1000]\<rparr> \<and>
   forward_worker (example_config Continuous [Filter_All])
     [(example_backend [])\<lparr>be_history_new := Result [text_message 5 ''hi''],
                            be_send_text := (\<lambda>chat t. Error_response ''refused'')\<rparr>,
      (example_backend [])\<lparr>be_history_new := Result [text_message 5 ''hi''],
                            be_send_text := (\<lambda>chat t. Error_response ''refused'')\<rparr>] (started 4)
     = Inr \<lparr>fw_last_message_id = 4, fw_forwarded_count = 0, fw_failed_count = 2,
            fw_processed_media_groups = {},
            fw_trace = [Poll 4, Send_text 5, Sleep 1000, Poll 4, Send_text 5, Sleep 1000]\<rparr>"
  by (simp add: forward_cycle_def get_new_messages_def handle_message_def handle_single_def
      forward_message_def forward_text_message_def get_media_group_id_def
      should_forward_message_def record_actions_def breaking_def example_config_def
      example_backend_def started_def text_message_def Let_def)

text \<open>
  Claim C2, amended: for every fetched message (its id is above the cursor) that fails
  the configured message-type filter, or that is an ordinary message outside any media
  group whose forwarding fails (\<open>forward_message\<close> returns false or throws), the handling
  of the message returns, leaves the cursor where it is, marks no group and counts no
  forwarded message; it adds one to \<open>failed_count_\<close> when the forwarding has failed and
  leaves \<open>failed_count_\<close> as it is when the filter has rejected the message; and a poll
  from the cursor as the handling leaves it returns the message again whenever the
  history it reads holds the message. (So the message is fetched again on the next cycle
  unless another message has moved the cursor past it.)
\<close>

theorem unforwarded_message_cursor:
  assumes "fw_last_message_id st < msg_id m"
    and "\<not> should_forward_message (fc_message_filters cfg) m
         \<or> (get_media_group_id m = None
             \<and> (\<exists>r acts. forward_message cfg be m = Inr (r, acts) \<and> r \<noteq> Inr True))"
  shows "\<exists>st'. handle_message cfg be st m = Inr st'
           \<and> fw_last_message_id st' = fw_last_message_id st
           \<and> fw_processed_media_groups st' = fw_processed_media_groups st
           \<and> fw_forwarded_count st' = fw_forwarded_count st
           \<and> fw_failed_count st' =
               (if should_forward_message (fc_message_filters cfg) m then fw_failed_count st + 1
                else fw_failed_count st)
           \<and> (\<forall>be2 history. be_history_new be2 = Result history \<and> m \<in> set history \<longrightarrow>
                 (\<exists>batch. get_new_messages be2 (fw_last_message_id st') = Inr batch
                     \<and> m \<in> set batch))"
proof -
  have again: "\<forall>be2 history. be_history_new be2 = Result history \<and> m \<in> set history \<longrightarrow>
                 (\<exists>batch. get_new_messages be2 (fw_last_message_id st) = Inr batch
                     \<and> m \<in> set batch)"
    using assms(1) by (auto simp: get_new_messages_def)
  show ?thesis
  proof (cases "should_forward_message (fc_message_filters cfg) m")
    case False
    then show ?thesis using again by (simp add: handle_message_def)
  next
    case True
    with assms(2) obtain r acts where g: "get_media_group_id m = None"
      and f: "forward_message cfg be m = Inr (r, acts)" and r: "r \<noteq> Inr True" by blast
    have "\<exists>st'. handle_single cfg be st m = Inr st'
           \<and> fw_last_message_id st' = fw_last_message_id st
           \<and> fw_processed_media_groups st' = fw_processed_media_groups st
           \<and> fw_forwarded_count st' = fw_forwarded_count st
           \<and> fw_failed_count st' = fw_failed_count st + 1"
      using f r by (cases r) (auto simp: handle_single_def record_actions_def)
    then obtain st' where "handle_single cfg be st m = Inr st'"
      and "fw_last_message_id st' = fw_last_message_id st"
      and "fw_processed_media_groups st' = fw_processed_media_groups st"
      and "fw_forwarded_count st' = fw_forwarded_count st"
      and "fw_failed_count st' = fw_failed_count st + 1" by blast
    then show ?thesis using True g again by (simp add: handle_message_def)
  qed
qed

theorem unforwarded_message_cursor_witness:
  "fw_last_message_id (started 4) < msg_id (text_message 5 ''hi'') \<and>
   \<not> should_forward_message (fc_message_filters (example_config Continuous [Filter_Photo]))
        (text_message 5 ''hi'') \<and>
   handle_message (example_config Continuous [Filter_Photo]) (example_backend [])
     (started 4) (text_message 5 ''hi'') = Inr (started 4) \<and>
   get_media_group_id (text_message 5 ''hi'') = None \<and>
   forward_message (example_config Continuous [Filter_All])
     ((example_backend [])\<lparr>be_send_text := (\<lambda>chat t. Error_response ''refused'')\<rparr>)
     (text_message 5 ''hi'') = Inr (Inr False, [Send_text 5]) \<and>
   handle_message (example_config Continuous [Filter_All])
     ((example_backend [])\<lparr>be_send_text := (\<lambda>chat t. Error_response ''refused'')\<rparr>)
     (started 4) (text_message 5 ''hi'')
     = Inr \<lparr>fw_last_message_id = 4, fw_forwarded_count = 0, fw_failed_count = 1,
            fw_processed_media_groups = {}, fw_trace = [Send_text 5]\<rparr> \<and>
   get_new_messages ((example_backend [])\<lparr>be_history_new := Result [text_message 5 ''hi'']\<rparr>) 4
     = Inr [text_message 5 ''hi'']"
proof -
  let ?be = "(example_backend [])\<lparr>be_send_text := (\<lambda>chat t. Error_response ''refused'')\<rparr>"
  have z: "fw_last_message_id (started 4) < msg_id (text_message 5 ''hi'')"
    by (simp add: started_def text_message_def)
  have a: "\<not> should_forward_message (fc_message_filters (example_config Continuous [Filter_Photo]))
             (text_message 5 ''hi'')"
    by (simp add: should_forward_message_def example_config_def text_message_def)
  have b: "get_media_group_id (text_message 5 ''hi'') = None"
    by (simp add: get_media_group_id_def text_message_def)
  have c: "forward_message (example_config Continuous [Filter_All]) ?be (text_message 5 ''hi'')
             = Inr (Inr False, [Send_text 5])"
    by (simp add: forward_message_def forward_text_message_def text_message_def example_backend_def)
  have d: "\<not> should_forward_message (fc_message_filters (example_config Continuous [Filter_All]))
               (text_message 5 ''hi'')
           \<or> (get_media_group_id (text_message 5 ''hi'') = None
               \<and> (\<exists>r acts. forward_message (example_config Continuous [Filter_All]) ?be
                      (text_message 5 ''hi'') = Inr (r, acts) \<and> r \<noteq> Inr True))"
    using b c by simp
  have e: "handle_message (example_config Continuous [Filter_All]) ?be (started 4)
             (text_message 5 ''hi'')
           = Inr \<lparr>fw_last_message_id = 4, fw_forwarded_count = 0, fw_failed_count = 1,
                  fw_processed_media_groups = {}, fw_trace = [Send_text 5]\<rparr>"
    using b c
    by (simp add: handle_message_def handle_single_def should_forward_message_def
        record_actions_def example_config_def started_def)
  have f: "get_new_messages ((example_backend [])\<lparr>be_history_new := Result [text_message 5 ''hi'']\<rparr>) 4
     = Inr [text_message 5 ''hi'']"
    by (simp add: get_new_messages_def text_message_def)
  show ?thesis
    using unforwarded_message_cursor[OF z, of "example_config Continuous [Filter_Photo]"
            "example_backend []"]
          unforwarded_message_cursor[OF z d] a b c e f z
    by (auto simp: handle_message_def)
qed

text \<open>
  Claim C3 fails on the code, by the defect that claim C4 fails by. The album \<open>g\<close> has
  the photos 5, 6 and 7, and the backend refuses the download of the file of photo 6.
  The forwarder, its cursor at 4, fetches the three photos, asks the history for the
  group and calls \<open>download_media_group\<close> on it. The worker that takes the first task
  evaluates \<open>promise.get_future()\<close> on a promise whose future has been taken, and the
  process is terminated: no download ends \<open>Failed\<close>, the group download does not
  resolve, and there is no next poll cycle on which the group could be attempted again.
\<close>

theorem failed_group_terminates_process:
  "get_media_group_messages
     ((example_backend [6])\<lparr>be_history_recent := Result [photo 7 ''g'', photo 5 ''g'', photo 6 ''g'']\<rparr>)
     ''g'' = Inr [photo 5 ''g'', photo 6 ''g'', photo 7 ''g''] \<and>
   download_media_group_get (example_backend [6]) [photo 5 ''g'', photo 6 ''g'', photo 7 ''g'']
     = Inl (uncaught future_error) \<and>
   forward_worker (example_config Continuous [Filter_All])
     [(example_backend [6])\<lparr>be_history_new := Result [photo 5 ''g'', photo 6 ''g'', photo 7 ''g''],
                             be_history_recent := Result [photo 7 ''g'', photo 5 ''g'', photo 6 ''g'']\<rparr>,
      (example_backend [6])\<lparr>be_history_new := Result [photo 5 ''g'', photo 6 ''g'', photo 7 ''g''],
                             be_history_recent := Result [photo 7 ''g'', photo 5 ''g'', photo 6 ''g'']\<rparr>]
     (started 4)
     = Inl (uncaught future_error)"
proof -
  have g: "get_media_group_id (photo i ''g'') = Some ''g''" for i
    by (simp add: get_media_group_id_def photo_def)
  have d: "download_media_group_get be [photo 5 ''g'', photo 6 ''g'', photo 7 ''g'']
             = Inl (uncaught future_error)" for be
    by (rule download_media_group_get_fault[OF g])
  have i: "msg_id (photo i a) = i" for i a by (simp add: photo_def)
  have s: "should_forward_message [Filter_All] m" for m by (simp add: should_forward_message_def)
  show ?thesis
    by (simp add: forward_cycle_def get_new_messages_def get_media_group_messages_def
        handle_message_def handle_group_def forward_media_group_def media_group_processed_def
        record_actions_def example_config_def started_def g d i s Let_def)
qed

text \<open>
  Claim C8 fails on the code. In the mode \<open>OneTime\<close> the first cycle finds the message
  5 and forwards it. The statement \<open>breaking;\<close> does not leave the loop: the forwarder
  sleeps, and the second iteration polls again, from the cursor 5.
\<close>

theorem one_time_polls_again:
  "forward_worker (example_config OneTime [Filter_All])
     [(example_backend [])\<lparr>be_history_new := Result [text_message 5 ''hi'']\<rparr>,
      (example_backend [])\<lparr>be_history_new := Result [text_message 5 ''hi'']\<rparr>] (started 4)
     = Inr \<lparr>fw_last_message_id = 5, fw_forwarded_count = 1, fw_failed_count = 0,
            fw_processed_media_groups = {},
            fw_trace = [Poll 4, Send_text 5, Sleep 1000, Poll 5, Sleep 1000]\<rparr>"
  by (simp add: forward_cycle_def get_new_messages_def handle_message_def handle_single_def
      forward_message_def forward_text_message_def get_media_group_id_def
      should_forward_message_def record_actions_def breaking_def example_config_def
      example_backend_def started_def text_message_def Let_def)

section \<open>Properties of the dedup sets\<close>



lemma evict_oldest_within: "length xs \<le> threshold \<Longrightarrow> evict_oldest threshold xs = xs"
  by (simp add: evict_oldest_def)




section \<open>Properties of the channel resolver\<close>

lemma digits_val_all_digits:
  "list_all isdigit ds \<Longrightarrow> digits_val acc ds = foldl (\<lambda>a c. a * 10 + digit_value c) acc ds"
  by (induction ds arbitrary: acc) auto

lemma valid_channel_id_shape:
  assumes v: "is_valid_channel_id s"
  shows "\<exists>ds. s = ''-100'' @ ds \<and> ds \<noteq> [] \<and> list_all isdigit ds"
proof -
  from v have a: "take 4 s = ''-100''" and b: "list_all isdigit (drop 4 s)" and c: "4 < length s"
    unfolding is_valid_channel_id_def by (simp_all split: if_splits)
  have "s = take 4 s @ drop 4 s" by simp
  with a have "s = ''-100'' @ drop 4 s" by simp
  moreover have "drop 4 s \<noteq> []" using c by simp
  ultimately show ?thesis using b by blast
qed

text \<open>The identifiers that \<open>is_valid_channel_id\<close> accepts are those of the shape of claim C9.\<close>

lemma shape_valid_channel_id:
  assumes "ds \<noteq> []" and "list_all isdigit ds"
  shows "is_valid_channel_id (''-100'' @ ds)"
  using assms by (cases ds) (simp_all add: is_valid_channel_id_def)

lemma stoll_valid_channel_id:
  assumes "is_valid_channel_id s"
  shows "stoll s = (if - int (decimal_value (tl s)) < - (2 ^ 63) then Inl out_of_range
                    else Inr (- int (decimal_value (tl s))))"
proof -
  from valid_channel_id_shape[OF assms] obtain ds
    where s: "s = ''-100'' @ ds" and ds: "list_all isdigit ds" by blast
  have "list_all isdigit (''100'' @ ds)" using ds by (simp add: isdigit_def)
  then have dv: "digits_val 0 (''100'' @ ds) = decimal_value (''100'' @ ds)"
    unfolding decimal_value_def by (rule digits_val_all_digits)
  have sp: "\<not> isspace CHR ''-''" by (simp add: isspace_def)
  have d1: "isdigit CHR ''1''" by (simp add: isdigit_def)
  show ?thesis unfolding s stoll_def using dv sp d1
    by (simp add: Let_def)
qed

text \<open>Every cache the resolver reaches is consistent: the empty one is, and both operations keep it so.\<close>

lemma cache_consistent_empty: "cache_consistent Map.empty"
  by (simp add: cache_consistent_def)

lemma cache_consistent_clear: "cache_consistent (clear_cache c)"
  by (simp add: clear_cache_def cache_consistent_def)

lemma cache_consistent_resolve:
  assumes cc: "cache_consistent c"
  shows "cache_consistent (fst (snd (resolve_channel_sync search c k)))"
proof -
  have upd: "cache_consistent (c(k \<mapsto> v))" if "is_valid_channel_id k \<Longrightarrow> stoll k = Inr v" for v
    using cc that unfolding cache_consistent_def by (simp split: if_splits)
  show ?thesis
  proof (cases "c k")
    case (Some a)
    then show ?thesis using cc by (simp add: resolve_channel_sync_def)
  next
    case None
    show ?thesis
    proof (cases "is_valid_channel_id k")
      case True
      then show ?thesis using None cc upd
        by (cases "stoll k") (simp_all add: resolve_channel_sync_def)
    next
      case False
      then have u: "cache_consistent (c(k \<mapsto> v))" for v using upd by simp
      show ?thesis
      proof (cases "identifier_username k")
        case (Inl e)
        then show ?thesis using None False cc by (simp add: resolve_channel_sync_def)
      next
        case (Inr u')
        then show ?thesis using None False cc u
          by (cases "get_chat_id_by_username search u'") (simp_all add: resolve_channel_sync_def)
      qed
    qed
  qed
qed

text \<open>
  Claim C9, as stated, fails: the identifier \<open>-1009999999999999999999\<close> has the prefix
  \<open>-100\<close> followed by digits only, yet \<open>resolve_channel_sync\<close> returns no integer. The
  value does not fit a signed 64-bit integer, \<open>std::stoll\<close> throws \<open>out_of_range\<close>, and
  nothing is put into the cache.
\<close>

theorem resolve_channel_sync_numeric_overflow:
  "is_valid_channel_id ''-1009999999999999999999'' \<and>
   resolve_channel_sync (\<lambda>u. Result 7) Map.empty ''-1009999999999999999999''
     = (Inl out_of_range, Map.empty, [])"
  by (simp add: resolve_channel_sync_def is_valid_channel_id_def isdigit_def stoll_def
      isspace_def digit_value_def Let_def)

text \<open>
  Claim C9, amended: for every identifier that is \<open>-100\<close> followed by one or more
  characters, all of them decimal digits, \<open>resolve_channel_sync\<close> (on any cache the
  resolver can have reached) issues no backend query. When the integer value of the
  identifier is not below \<open>-2^63\<close>, it returns that value and leaves it in the cache
  under the identifier. When the value is below \<open>-2^63\<close>, \<open>std::stoll\<close> throws
  \<open>out_of_range\<close>, and the cache is left as it is, with no entry under the identifier.
\<close>

theorem resolve_channel_sync_numeric:
  assumes "is_valid_channel_id ident"
    and "cache_consistent c"
  shows "resolve_channel_sync search c ident =
           (if - (2 ^ 63) \<le> - int (decimal_value (tl ident))
            then (Inr (- int (decimal_value (tl ident))),
                  c(ident \<mapsto> - int (decimal_value (tl ident))), [])
            else (Inl out_of_range, c, []))
         \<and> (- int (decimal_value (tl ident)) < - (2 ^ 63) \<longrightarrow> c ident = None)"
proof (cases "c ident")
  case None
  then show ?thesis using assms stoll_valid_channel_id[OF assms(1)]
    by (simp add: resolve_channel_sync_def)
next
  case (Some v)
  with assms have "stoll ident = Inr v" unfolding cache_consistent_def by blast
  with stoll_valid_channel_id[OF assms(1)]
  have v: "v = - int (decimal_value (tl ident))"
    and r: "- (2 ^ 63) \<le> - int (decimal_value (tl ident))"
    by (simp_all split: if_splits)
  have "c(ident \<mapsto> v) = c" using Some by (simp add: fun_upd_idem)
  then show ?thesis using Some v r by (simp add: resolve_channel_sync_def)
qed

theorem resolve_channel_sync_numeric_witness:
  "is_valid_channel_id ''-1001234567890'' \<and> cache_consistent Map.empty \<and>
   resolve_channel_sync (\<lambda>u. Timed_out) Map.empty ''-1001234567890''
     = (Inr (- 1001234567890), [''-1001234567890'' \<mapsto> - 1001234567890], []) \<and>
   is_valid_channel_id ''-10012345678901234567890'' \<and>
   resolve_channel_sync (\<lambda>u. Timed_out) Map.empty ''-10012345678901234567890''
     = (Inl out_of_range, Map.empty, [])"
proof -
  have a: "is_valid_channel_id ''-1001234567890''"
    by (simp add: is_valid_channel_id_def isdigit_def)
  have b: "decimal_value (tl ''-1001234567890'') = 1001234567890"
    by (simp add: decimal_value_def digit_value_def)
  have a2: "is_valid_channel_id ''-10012345678901234567890''"
    by (simp add: is_valid_channel_id_def isdigit_def)
  have b2: "decimal_value (tl ''-10012345678901234567890'') = 10012345678901234567890"
    by (simp add: decimal_value_def digit_value_def)
  show ?thesis
    using resolve_channel_sync_numeric[OF a cache_consistent_empty, of "\<lambda>u. Timed_out"]
          resolve_channel_sync_numeric[OF a2 cache_consistent_empty, of "\<lambda>u. Timed_out"] a a2
    unfolding b b2
    by (simp add: cache_consistent_empty)
qed

end
